theory Spec2Isabelle
  imports Complex_Main "HOL-Library.Word"
begin

section \<open>Numbers and errors\<close>

text \<open>
  The risk engine computes on Python and numpy floating-point numbers. A finite float is
  modelled by the real number it stands for (rounding, overflow and the sign of zero are
  outside the model); the non-finite values numpy can hand back, the two infinities and
  NaN, are kept as values of their own, since numpy's division and mean return them
  without raising.
\<close>

datatype pyfloat = Fin real | PosInf | NegInf | NaN

text \<open>The exceptions the modelled code can raise.\<close>

datatype error =
    ZeroDivisionError
  | KeyError string
  | ValueError
  | IndexError
  | LinAlgError

text \<open>Sequencing of fallible steps: the first exception ends the computation.\<close>

definition ebind :: "error + 'a \<Rightarrow> ('a \<Rightarrow> error + 'b) \<Rightarrow> error + 'b" where
  "ebind m f = (case m of Inl e \<Rightarrow> Inl e | Inr v \<Rightarrow> f v)"

subsection \<open>Float arithmetic with infinities and NaN\<close>

instantiation pyfloat :: "{plus, minus, uminus, times}"
begin

fun uminus_pyfloat :: "pyfloat \<Rightarrow> pyfloat" where
  "uminus_pyfloat (Fin x) = Fin (- x)"
| "uminus_pyfloat PosInf = NegInf"
| "uminus_pyfloat NegInf = PosInf"
| "uminus_pyfloat NaN = NaN"

fun plus_pyfloat :: "pyfloat \<Rightarrow> pyfloat \<Rightarrow> pyfloat" where
  "plus_pyfloat (Fin x) (Fin y) = Fin (x + y)"
| "plus_pyfloat NaN b = NaN"
| "plus_pyfloat a NaN = NaN"
| "plus_pyfloat PosInf NegInf = NaN"
| "plus_pyfloat NegInf PosInf = NaN"
| "plus_pyfloat PosInf b = PosInf"
| "plus_pyfloat a PosInf = PosInf"
| "plus_pyfloat NegInf b = NegInf"
| "plus_pyfloat a NegInf = NegInf"

definition minus_pyfloat :: "pyfloat \<Rightarrow> pyfloat \<Rightarrow> pyfloat" where
  "minus_pyfloat a b = a + (- b)"

fun times_pyfloat :: "pyfloat \<Rightarrow> pyfloat \<Rightarrow> pyfloat" where
  "times_pyfloat (Fin x) (Fin y) = Fin (x * y)"
| "times_pyfloat NaN b = NaN"
| "times_pyfloat a NaN = NaN"
| "times_pyfloat (Fin x) PosInf = (if x = 0 then NaN else if 0 < x then PosInf else NegInf)"
| "times_pyfloat (Fin x) NegInf = (if x = 0 then NaN else if 0 < x then NegInf else PosInf)"
| "times_pyfloat PosInf (Fin y) = (if y = 0 then NaN else if 0 < y then PosInf else NegInf)"
| "times_pyfloat NegInf (Fin y) = (if y = 0 then NaN else if 0 < y then NegInf else PosInf)"
| "times_pyfloat PosInf PosInf = PosInf"
| "times_pyfloat PosInf NegInf = NegInf"
| "times_pyfloat NegInf PosInf = NegInf"
| "times_pyfloat NegInf NegInf = PosInf"

instance ..

end

text \<open>\<open>a < b\<close> on floats: every comparison with NaN is false.\<close>

fun flt :: "pyfloat \<Rightarrow> pyfloat \<Rightarrow> bool" where
  "flt (Fin x) (Fin y) = (x < y)"
| "flt (Fin x) PosInf = True"
| "flt (Fin x) NegInf = False"
| "flt PosInf b = False"
| "flt NegInf (Fin y) = True"
| "flt NegInf PosInf = True"
| "flt NegInf NegInf = False"
| "flt a NaN = False"
| "flt NaN b = False"

text \<open>
  Python's builtins \<open>max(a, b)\<close> and \<open>min(a, b)\<close> keep the first argument unless the
  second is strictly greater (smaller), so a NaN in first place is returned as it is.
\<close>

definition py_max :: "pyfloat \<Rightarrow> pyfloat \<Rightarrow> pyfloat" where
  "py_max a b = (if flt a b then b else a)"

definition py_min :: "pyfloat \<Rightarrow> pyfloat \<Rightarrow> pyfloat" where
  "py_min a b = (if flt b a then b else a)"

text \<open>Python's \<open>/\<close> on two finite numbers raises on a zero divisor.\<close>

definition py_truediv :: "real \<Rightarrow> real \<Rightarrow> error + real" where
  "py_truediv a b = (if b = 0 then Inl ZeroDivisionError else Inr (a / b))"

text \<open>
  Python's \<open>/\<close> on floats that may be non-finite: a zero divisor raises whatever the
  dividend is; otherwise IEEE division.
\<close>

fun fdiv :: "pyfloat \<Rightarrow> pyfloat \<Rightarrow> pyfloat" where
  "fdiv (Fin x) (Fin y) = Fin (x / y)"
| "fdiv NaN b = NaN"
| "fdiv a NaN = NaN"
| "fdiv (Fin x) PosInf = Fin 0"
| "fdiv (Fin x) NegInf = Fin 0"
| "fdiv PosInf (Fin y) = (if 0 < y then PosInf else NegInf)"
| "fdiv NegInf (Fin y) = (if 0 < y then NegInf else PosInf)"
| "fdiv PosInf b = NaN"
| "fdiv NegInf b = NaN"

definition py_truediv_float :: "pyfloat \<Rightarrow> pyfloat \<Rightarrow> error + pyfloat" where
  "py_truediv_float a b = (if b = Fin 0 then Inl ZeroDivisionError else Inr (fdiv a b))"

text \<open>
  numpy's \<open>/\<close> on scalars never raises: a zero divisor gives NaN for \<open>0 / 0\<close> and an
  infinity otherwise (with a warning only).
\<close>

definition np_true_divide :: "real \<Rightarrow> real \<Rightarrow> pyfloat" where
  "np_true_divide a b =
     (if b = 0 then (if a = 0 then NaN else if 0 < a then PosInf else NegInf)
      else Fin (a / b))"

text \<open>\<open>np.mean\<close>: the mean of an empty array is NaN (a warning, no exception).\<close>

definition np_mean :: "real list \<Rightarrow> pyfloat" where
  "np_mean xs = np_true_divide (sum_list xs) (real (length xs))"

text \<open>\<open>np.max\<close> of an empty array raises ValueError.\<close>

fun np_max :: "real list \<Rightarrow> error + real" where
  "np_max [] = Inl ValueError"
| "np_max (x # xs) = Inr (fold max xs x)"

text \<open>
  A pydantic (version 1) field declared \<open>int\<close> that is given a finite float stores
  \<open>int(v)\<close>: the float truncated towards zero.
\<close>

definition py_int :: "real \<Rightarrow> int" where
  "py_int x = (if 0 \<le> x then \<lfloor>x\<rfloor> else \<lceil>x\<rceil>)"

text \<open>A dictionary from field names to numbers; a missing key raises KeyError.\<close>

type_synonym conditions = "string \<rightharpoonup> real"

definition getitem :: "conditions \<Rightarrow> string \<Rightarrow> error + real" where
  "getitem d k = (case d k of None \<Rightarrow> Inl (KeyError k) | Some v \<Rightarrow> Inr v)"

section \<open>RiskAnalytics (risk/risk\_analytics.py)\<close>

subsection \<open>\<open>np.percentile\<close>, default method (linear)\<close>

text \<open>
  numpy's interpolation step: \<open>a + (b - a) * t\<close>, rewritten from the other end when
  \<open>t \<ge> 0.5\<close>.
\<close>

definition np_lerp :: "real \<Rightarrow> real \<Rightarrow> real \<Rightarrow> real" where
  "np_lerp a b t = (if 1 / 2 \<le> t then b - (b - a) * (1 - t) else a + (b - a) * t)"

text \<open>
  \<open>np.percentile(a, q)\<close> for a one-dimensional array and a scalar \<open>q\<close>: \<open>q\<close> outside
  \<open>[0, 100]\<close> raises ValueError; an empty array raises IndexError; otherwise the
  virtual index \<open>(n - 1) * q / 100\<close> is split into the index below and the fraction
  \<open>gamma\<close>, the index above is clipped to the last one, and the two order statistics
  are interpolated.
\<close>

definition np_percentile :: "real list \<Rightarrow> real \<Rightarrow> error + real" where
  "np_percentile a q =
     (if \<not> (0 \<le> q \<and> q \<le> 100) then Inl ValueError
      else if a = [] then Inl IndexError
      else
        let arr = sort a;
            n = length a;
            virtual_index = real (n - 1) * (q / 100);
            previous_index = nat \<lfloor>virtual_index\<rfloor>;
            next_index = min (previous_index + 1) (n - 1);
            gamma = virtual_index - real previous_index
        in Inr (np_lerp (arr ! previous_index) (arr ! next_index) gamma))"

definition calculate_var :: "real list \<Rightarrow> real \<Rightarrow> error + real" where
  "calculate_var returns confidence_level =
     np_percentile returns ((1 - confidence_level) * 100)"

text \<open>
  For comparison, the percentile by linear interpolation between closest ranks as the
  statistics texts state it: with the data sorted, \<open>x\<^sub>0 \<le> \<dots> \<le> x\<^sub>n\<^sub>-\<^sub>1\<close>, the \<open>p\<close>-th
  percentile sits at the rank \<open>h = (n - 1) * p / 100\<close> and is
  \<open>x\<^bsub>floor h\<^esub> + (h - floor h) * (x\<^bsub>ceiling h\<^esub> - x\<^bsub>floor h\<^esub>)\<close>.
\<close>

definition linear_interpolation_percentile :: "real list \<Rightarrow> real \<Rightarrow> real" where
  "linear_interpolation_percentile xs p =
     (let ordered = sort xs;
          h = real (length xs - 1) * p / 100;
          lo = nat \<lfloor>h\<rfloor>;
          hi = nat \<lceil>h\<rceil>
      in ordered ! lo + (h - real lo) * (ordered ! hi - ordered ! lo))"

text \<open>
  \<open>np.mean(returns[returns <= var])\<close>: the boolean mask keeps the returns at or below
  the threshold, in order; the mean of what is kept is returned.
\<close>

definition calculate_expected_shortfall :: "real list \<Rightarrow> real \<Rightarrow> pyfloat" where
  "calculate_expected_shortfall returns var =
     np_mean (filter (\<lambda>r. r \<le> var) returns)"

subsection \<open>Risk scores\<close>

definition assess_liquidity_risk :: "real \<Rightarrow> real \<Rightarrow> real \<Rightarrow> error + real" where
  "assess_liquidity_risk trading_volume market_cap bid_ask_spread =
     ebind (py_truediv trading_volume market_cap) (\<lambda>turnover_ratio.
     ebind (py_truediv bid_ask_spread (1 + bid_ask_spread)) (\<lambda>spread_impact.
       let risk_score = 0.7 * (1 - turnover_ratio) + 0.3 * spread_impact
       in Inr (min (max risk_score 0) 1)))"

definition RiskAnalytics_assess_operational_risk :: "real \<Rightarrow> real \<Rightarrow> real \<Rightarrow> real" where
  "RiskAnalytics_assess_operational_risk system_uptime transaction_volume error_rate =
     (let availability_risk = 1 - system_uptime;
          volume_risk = min (transaction_volume / 1000000) 1;
          error_risk = error_rate;
          risk_score = 0.4 * availability_risk + 0.3 * volume_risk + 0.3 * error_risk
      in min (max risk_score 0) 1)"

text \<open>
  For comparison, the operational-risk formula as section 4.1 of the specification words
  it: \<open>clamp(0.4 * (1 - uptime) + 0.3 * min(transaction_volume / 1_000_000, 1)
  + 0.3 * error_rate, 0, 1)\<close>.
\<close>

definition operational_risk_formula_4_1 :: "real \<Rightarrow> real \<Rightarrow> real \<Rightarrow> real" where
  "operational_risk_formula_4_1 uptime transaction_volume error_rate =
     min (max (0.4 * (1 - uptime) + 0.3 * min (transaction_volume / 1000000) 1
               + 0.3 * error_rate) 0) 1"

definition RiskAnalytics_assess_systemic_risk :: "int \<Rightarrow> real \<Rightarrow> real \<Rightarrow> real" where
  "RiskAnalytics_assess_systemic_risk network_size concentration_ratio interdependency_score =
     (let size_risk = 1 - (1 / (1 + exp (- real_of_int network_size / 1000)));
          concentration_risk = concentration_ratio;
          interdependency_risk = interdependency_score;
          risk_score = 0.3 * size_risk + 0.4 * concentration_risk + 0.3 * interdependency_risk
      in min (max risk_score 0) 1)"

section \<open>AdvancedRiskModels (risk/advanced\_risk\_models.py)\<close>

record NetworkMetrics =
  node_count :: int
  edge_count :: int
  average_degree :: pyfloat
  clustering_coefficient :: pyfloat
  centralization :: pyfloat

record LiquidityMetrics =
  trading_volume :: pyfloat
  bid_ask_spread :: pyfloat
  market_depth :: pyfloat
  turnover_ratio :: pyfloat
  liquidity_ratio :: pyfloat

subsection \<open>Matrices\<close>

text \<open>
  An adjacency matrix is the list of its rows. \<open>np.sum(m)\<close> adds all entries,
  \<open>np.sum(m, axis=1)\<close> gives the row sums, \<open>np.linalg.matrix_power(m, 3)\<close> is
  \<open>(m @ m) @ m\<close> and needs a square matrix, \<open>np.trace\<close> adds the diagonal. numpy
  does these in the arithmetic of the array's element type, so they are defined for any
  type of numbers.
\<close>

definition np_sum :: "'a::monoid_add list list \<Rightarrow> 'a" where
  "np_sum m = sum_list (map sum_list m)"

definition np_sum_axis1 :: "'a::monoid_add list list \<Rightarrow> 'a list" where
  "np_sum_axis1 m = map sum_list m"

definition is_square :: "'a list list \<Rightarrow> bool" where
  "is_square m = list_all (\<lambda>row. length row = length m) m"

definition matmul :: "'a::semiring_0 list list \<Rightarrow> 'a list list \<Rightarrow> 'a list list" where
  "matmul a b = map (\<lambda>row. map (\<lambda>col. sum_list (map2 (*) row col)) (transpose b)) a"

definition matrix_power3 :: "'a::semiring_0 list list \<Rightarrow> error + 'a list list" where
  "matrix_power3 m = (if is_square m then Inr (matmul (matmul m m) m) else Inl LinAlgError)"

definition np_trace :: "'a::monoid_add list list \<Rightarrow> 'a" where
  "np_trace m = sum_list (map (\<lambda>i. m ! i ! i) [0..<length m])"

subsection \<open>Network risk\<close>

text \<open>
  The number of possible triangles as the code computes it.
\<close>

definition possible_triangles_of :: "real list \<Rightarrow> real" where
  "possible_triangles_of degrees = sum_list (map (\<lambda>d. d * (d - 1)) degrees) / 2"

text \<open>
  An empty array has no row sums along axis 1 (a one-dimensional empty array) or no
  maximum (a 0 x 0 array): numpy raises a ValueError either way. The statements follow
  the source's order; the metrics are then stored in the pydantic record, which
  truncates \<open>edge_count\<close> to an integer.
\<close>

definition calculate_network_risk :: "real list list \<Rightarrow> error + NetworkMetrics" where
  "calculate_network_risk adjacency_matrix =
     (if adjacency_matrix = [] then Inl ValueError
      else
        let node_count = int (length adjacency_matrix);
            edge_count = np_sum adjacency_matrix / 2;
            degrees = np_sum_axis1 adjacency_matrix;
            average_degree = np_mean degrees
        in
        ebind (matrix_power3 adjacency_matrix) (\<lambda>cube.
          let triangles = np_trace cube / 6;
              possible_triangles = possible_triangles_of degrees;
              clustering_coefficient =
                (if 0 < possible_triangles then np_true_divide triangles possible_triangles
                 else Fin 0)
          in
          ebind (np_max degrees) (\<lambda>max_degree.
            let centralization =
                  np_true_divide (sum_list (map (\<lambda>d. max_degree - d) degrees))
                    (real_of_int (node_count * (node_count - 1)))
            in Inr \<lparr>node_count = node_count,
                    edge_count = py_int edge_count,
                    average_degree = average_degree,
                    clustering_coefficient = clustering_coefficient,
                    centralization = centralization\<rparr>)))"

subsection \<open>Network risk of an integer matrix\<close>

text \<open>
  numpy picks the arithmetic by the element type of the array. The definition above is
  the arithmetic of a float64 array. An array built from Python integers, as the sample
  matrix and the matrix of the repository's test are, has the element type int64: its
  sums, differences, products, matrix power and trace are computed in 64-bit integers,
  which wrap around silently, and a float appears only where a division or \<open>np.mean\<close>
  is applied to such a result. A 64-bit word is such an integer; \<open>sint\<close> reads its
  signed value.
\<close>

type_synonym int64 = "64 word"

definition int64_to_float :: "int64 \<Rightarrow> real" where
  "int64_to_float x = real_of_int (sint x)"

text \<open>\<open>np.max\<close> of an int64 array compares the signed values.\<close>

fun np_max_int64 :: "int64 list \<Rightarrow> error + int64" where
  "np_max_int64 [] = Inl ValueError"
| "np_max_int64 (x # xs) = Inr (fold (\<lambda>y m. if sint m < sint y then y else m) xs x)"

text \<open>
  The same statements as above on an int64 array; \<open>np.mean\<close> of an integer array adds
  up in float64.
\<close>

definition calculate_network_risk_int64 :: "int64 list list \<Rightarrow> error + NetworkMetrics" where
  "calculate_network_risk_int64 adjacency_matrix =
     (if adjacency_matrix = [] then Inl ValueError
      else
        let node_count = int (length adjacency_matrix);
            edge_count = int64_to_float (np_sum adjacency_matrix) / 2;
            degrees = np_sum_axis1 adjacency_matrix;
            average_degree = np_mean (map int64_to_float degrees)
        in
        ebind (matrix_power3 adjacency_matrix) (\<lambda>cube.
          let triangles = int64_to_float (np_trace cube) / 6;
              possible_triangles =
                int64_to_float (sum_list (map (\<lambda>d. d * (d - 1)) degrees)) / 2;
              clustering_coefficient =
                (if 0 < possible_triangles then np_true_divide triangles possible_triangles
                 else Fin 0)
          in
          ebind (np_max_int64 degrees) (\<lambda>max_degree.
            let centralization =
                  np_true_divide
                    (int64_to_float (sum_list (map (\<lambda>d. max_degree - d) degrees)))
                    (real_of_int (node_count * (node_count - 1)))
            in Inr \<lparr>node_count = node_count,
                    edge_count = py_int edge_count,
                    average_degree = average_degree,
                    clustering_coefficient = clustering_coefficient,
                    centralization = centralization\<rparr>)))"



subsection \<open>Liquidity, operational and systemic risk\<close>

definition calculate_liquidity_risk :: "conditions \<Rightarrow> error + LiquidityMetrics" where
  "calculate_liquidity_risk trading_data =
     ebind (getitem trading_data ''volume'') (\<lambda>volume.
     ebind (getitem trading_data ''market_cap'') (\<lambda>market_cap.
     ebind (py_truediv volume market_cap) (\<lambda>turnover.
     ebind (getitem trading_data ''spread'') (\<lambda>spread.
     ebind (py_truediv (volume * (1 - spread)) market_cap) (\<lambda>liquidity.
     ebind (getitem trading_data ''depth'') (\<lambda>depth.
       Inr \<lparr>trading_volume = Fin volume,
            bid_ask_spread = Fin spread,
            market_depth = Fin depth,
            turnover_ratio = Fin turnover,
            liquidity_ratio = Fin liquidity\<rparr>))))))"

definition AdvancedRiskModels_assess_operational_risk :: "conditions \<Rightarrow> error + real" where
  "AdvancedRiskModels_assess_operational_risk system_metrics =
     ebind (getitem system_metrics ''uptime'') (\<lambda>uptime.
     let availability_risk = 1 - uptime in
     ebind (getitem system_metrics ''response_time'') (\<lambda>response_time.
     ebind (getitem system_metrics ''target_response_time'') (\<lambda>target_response_time.
     ebind (py_truediv response_time target_response_time) (\<lambda>ratio.
     let performance_risk = 1 - ratio in
     ebind (getitem system_metrics ''security_incidents'') (\<lambda>security_incidents.
     ebind (getitem system_metrics ''total_incidents'') (\<lambda>total_incidents.
     ebind (py_truediv security_incidents total_incidents) (\<lambda>security_risk.
       let risk_score = 0.4 * availability_risk + 0.3 * performance_risk + 0.3 * security_risk
       in Inr (min (max risk_score 0) 1))))))))"

definition AdvancedRiskModels_assess_systemic_risk ::
    "NetworkMetrics \<Rightarrow> LiquidityMetrics \<Rightarrow> pyfloat \<Rightarrow> error + pyfloat" where
  "AdvancedRiskModels_assess_systemic_risk network_metrics liquidity_metrics operational_risk =
     ebind (py_truediv_float (average_degree network_metrics)
              (Fin (real_of_int (node_count network_metrics)))) (\<lambda>degree_share.
       let network_risk = Fin 0.3 * centralization network_metrics
                        + Fin 0.3 * (Fin 1 - clustering_coefficient network_metrics)
                        + Fin 0.4 * degree_share;
           liquidity_risk = Fin 0.4 * (Fin 1 - liquidity_ratio liquidity_metrics)
                          + Fin 0.3 * bid_ask_spread liquidity_metrics
                          + Fin 0.3 * (Fin 1 - turnover_ratio liquidity_metrics);
           systemic_risk = Fin 0.4 * network_risk
                         + Fin 0.3 * liquidity_risk
                         + Fin 0.3 * operational_risk
       in Inr (py_min (py_max systemic_risk (Fin 0)) (Fin 1)))"

subsection \<open>Stress test\<close>

text \<open>
  A scenario is a dictionary read at the keys \<open>shocks\<close>, \<open>network\<close> and \<open>name\<close>; a key
  that is absent raises KeyError when it is read. The shocks are the items of a
  dictionary, in its order.
\<close>

record ShockScenario =
  name :: "string option"
  shocks :: "(string \<times> real) list option"
  network :: "real list list option"

definition scenario_key :: "string \<Rightarrow> 'a option \<Rightarrow> error + 'a" where
  "scenario_key k v = (case v of None \<Rightarrow> Inl (KeyError k) | Some x \<Rightarrow> Inr x)"

text \<open>One row of the resulting table.\<close>

record StressRow =
  row_scenario :: string
  row_network_risk :: pyfloat
  row_liquidity_risk :: pyfloat
  row_operational_risk :: pyfloat
  row_systemic_risk :: pyfloat

text \<open>
  The inner loop \<open>shocked_conditions[key] *= (1 + value)\<close> over the items of the
  scenario's shocks, on the copy of the initial conditions.
\<close>

fun apply_shocks :: "conditions \<Rightarrow> (string \<times> real) list \<Rightarrow> error + conditions" where
  "apply_shocks shocked_conditions [] = Inr shocked_conditions"
| "apply_shocks shocked_conditions ((key, v) # rest) =
     (case shocked_conditions key of
        None \<Rightarrow> Inl (KeyError key)
      | Some x \<Rightarrow> apply_shocks (shocked_conditions(key \<mapsto> x * (1 + v))) rest)"

text \<open>
  The risk metrics under given (shocked) conditions and the row built from them: the part
  of the loop body after the shocks are applied.
\<close>

definition risk_row ::
    "conditions \<Rightarrow> ShockScenario \<Rightarrow> error + StressRow" where
  "risk_row shocked_conditions scenario =
     ebind (scenario_key ''network'' (network scenario)) (\<lambda>net.
     ebind (calculate_network_risk net) (\<lambda>network_risk.
     ebind (calculate_liquidity_risk shocked_conditions) (\<lambda>liquidity_risk.
     ebind (AdvancedRiskModels_assess_operational_risk shocked_conditions) (\<lambda>operational_risk.
     ebind (AdvancedRiskModels_assess_systemic_risk network_risk liquidity_risk
              (Fin operational_risk)) (\<lambda>systemic_risk.
     ebind (scenario_key ''name'' (name scenario)) (\<lambda>scenario_name.
       Inr \<lparr>row_scenario = scenario_name,
            row_network_risk = centralization network_risk,
            row_liquidity_risk = liquidity_ratio liquidity_risk,
            row_operational_risk = Fin operational_risk,
            row_systemic_risk = systemic_risk\<rparr>))))))"

text \<open>The body of the loop over the scenarios.\<close>

definition stress_test_step :: "conditions \<Rightarrow> ShockScenario \<Rightarrow> error + StressRow" where
  "stress_test_step initial_conditions scenario =
     ebind (scenario_key ''shocks'' (shocks scenario)) (\<lambda>items.
     ebind (apply_shocks initial_conditions items) (\<lambda>shocked_conditions.
       risk_row shocked_conditions scenario))"

text \<open>
  The loop: \<open>results\<close> grows by one row per scenario, appended at the end; the first
  exception aborts the whole run. The table is the list of rows.
\<close>

fun stress_test_loop ::
    "conditions \<Rightarrow> ShockScenario list \<Rightarrow> StressRow list \<Rightarrow> error + StressRow list" where
  "stress_test_loop initial_conditions [] results = Inr results"
| "stress_test_loop initial_conditions (scenario # rest) results =
     (case stress_test_step initial_conditions scenario of
        Inl e \<Rightarrow> Inl e
      | Inr row \<Rightarrow> stress_test_loop initial_conditions rest (results @ [row]))"

definition stress_test :: "conditions \<Rightarrow> ShockScenario list \<Rightarrow> error + StressRow list" where
  "stress_test initial_conditions shock_scenarios =
     stress_test_loop initial_conditions shock_scenarios []"

subsection \<open>Sample data\<close>

text \<open>
  The sample network of the module's example run and of the repository's test, and its
  sample trading data and system metrics joined into one dictionary of conditions, as
  \<open>stress_test\<close> reads both from the same dictionary. The last two entries are the
  sample transaction volume and error rate of risk\_analytics.py, which \<open>stress_test\<close>
  never reads.
\<close>

definition sample_adjacency_matrix :: "real list list" where
  "sample_adjacency_matrix = [[0, 1, 1, 0], [1, 0, 1, 1], [1, 1, 0, 1], [0, 1, 1, 0]]"

definition sample_conditions :: conditions where
  "sample_conditions =
     [''volume'' \<mapsto> 1000000, ''market_cap'' \<mapsto> 10000000, ''spread'' \<mapsto> 0.001,
      ''depth'' \<mapsto> 500000,
      ''uptime'' \<mapsto> 0.999, ''response_time'' \<mapsto> 0.1, ''target_response_time'' \<mapsto> 0.2,
      ''security_incidents'' \<mapsto> 2, ''total_incidents'' \<mapsto> 100,
      ''transaction_volume'' \<mapsto> 500000, ''error_rate'' \<mapsto> 0.0001]"

section \<open>Expected shortfall\<close>

text \<open>
  Claim C4, as the code has it. The code raises nothing here: when no return is at or
  below \<open>var\<close> the selection is empty and \<open>np.mean\<close> hands back NaN, which is returned
  as the expected shortfall; and NaN is returned in no other case.
\<close>

theorem expected_shortfall_empty_tail_nan:
  "(\<forall>r\<in>set returns. var < r) \<longleftrightarrow> calculate_expected_shortfall returns var = NaN"
  by (auto simp: calculate_expected_shortfall_def np_mean_def np_true_divide_def
        filter_empty_conv not_le split: if_splits)

theorem expected_shortfall_empty_tail_nan_witness:
  "calculate_expected_shortfall [3 / 100, 1 / 100] (- 1 / 100) = NaN"
  using expected_shortfall_empty_tail_nan [of "[3 / 100, 1 / 100]" "- 1 / 100"]
  by simp

text \<open>
  The claim as stated fails: with both returns above the threshold 0 the operation
  returns NaN, a value, not an error.
\<close>

theorem expected_shortfall_returns_nan_counterexample:
  "calculate_expected_shortfall [1 / 100, 2 / 100] 0 = NaN"
  by (simp add: calculate_expected_shortfall_def np_mean_def np_true_divide_def)

section \<open>The systemic-risk score of RiskAnalytics\<close>

lemma logistic_complement_bounds:
  fixes e :: real
  assumes "0 < e" and "e \<le> 1"
  shows "0 < 1 - 1 / (1 + e)" and "1 - 1 / (1 + e) \<le> 1 / 2"
proof -
  from assms have "1 / (1 + e) < 1" by (simp add: field_simps)
  then show "0 < 1 - 1 / (1 + e)" by simp
  from assms have "1 / 2 \<le> 1 / (1 + e)" by (simp add: field_simps)
  then show "1 - 1 / (1 + e) \<le> 1 / 2" by simp
qed

lemma clamp_inactive:
  fixes x :: real
  shows "0 \<le> x \<Longrightarrow> x \<le> 1 \<Longrightarrow> min (max x 0) 1 = x"
  by simp

text \<open>
  Claim C10. For a network size that is not negative and a concentration ratio and an
  interdependency score in \<open>[0, 1]\<close>, the systemic-risk score is the weighted sum
  itself: the size term is at most one half, so the sum lies in \<open>[0, 0.85]\<close> and
  neither bound of the clamp is reached.
\<close>

theorem systemic_risk_unclamped:
  assumes "0 \<le> network_size"
    and "0 \<le> concentration_ratio" and "concentration_ratio \<le> 1"
    and "0 \<le> interdependency_score" and "interdependency_score \<le> 1"
  shows "RiskAnalytics_assess_systemic_risk network_size concentration_ratio interdependency_score
           = 0.3 * (1 - 1 / (1 + exp (- real_of_int network_size / 1000)))
             + 0.4 * concentration_ratio + 0.3 * interdependency_score
       \<and> 0 \<le> RiskAnalytics_assess_systemic_risk network_size concentration_ratio interdependency_score
       \<and> RiskAnalytics_assess_systemic_risk network_size concentration_ratio interdependency_score \<le> 0.85"
proof -
  define s where "s = 1 - 1 / (1 + exp (- real_of_int network_size / 1000))"
  define total where "total = 0.3 * s + 0.4 * concentration_ratio + 0.3 * interdependency_score"
  have "exp (- real_of_int network_size / 1000) \<le> 1"
    using assms(1) by simp
  then have s: "0 < s" "s \<le> 1 / 2"
    unfolding s_def by (rule logistic_complement_bounds [OF exp_gt_zero])+
  have lo: "0 \<le> total" and hi: "total \<le> 0.85"
    using s assms by (simp_all add: total_def)
  have "RiskAnalytics_assess_systemic_risk network_size concentration_ratio interdependency_score
          = min (max total 0) 1"
    by (simp add: RiskAnalytics_assess_systemic_risk_def Let_def total_def s_def)
  also have "\<dots> = total"
    using lo hi by (intro clamp_inactive) simp_all
  finally show ?thesis
    using lo hi by (simp add: total_def s_def)
qed

text \<open>The upper bound is met: an empty network with both ratios at one scores 0.85.\<close>

theorem systemic_risk_unclamped_witness:
  "RiskAnalytics_assess_systemic_risk 0 1 1 = 0.85"
  using systemic_risk_unclamped [of 0 1 1] by simp

section \<open>Risk scores lie in the unit interval\<close>

lemma clamp_unit_interval:
  fixes x :: real
  shows "0 \<le> min (max x 0) 1" and "min (max x 0) 1 \<le> 1"
  by simp_all

lemma py_clamp_Fin:
  "py_min (py_max (Fin x) (Fin 0)) (Fin 1) = Fin (min (max x 0) 1)"
  by (simp add: py_min_def py_max_def min_def max_def)

lemma liquidity_risk_cases:
  "case assess_liquidity_risk volume cap spr of
     Inl e \<Rightarrow> e = ZeroDivisionError \<and> (cap = 0 \<or> spr = - 1)
   | Inr r \<Rightarrow> cap \<noteq> 0 \<and> spr \<noteq> - 1 \<and> 0 \<le> r \<and> r \<le> 1"
proof -
  have eq: "1 + spr = 0 \<longleftrightarrow> spr = - 1" by arith
  show ?thesis
    unfolding assess_liquidity_risk_def ebind_def py_truediv_def Let_def
    using clamp_unit_interval by (simp add: eq)
qed

lemma operational_risk_bounds:
  "0 \<le> RiskAnalytics_assess_operational_risk system_uptime transaction_volume error_rate"
  "RiskAnalytics_assess_operational_risk system_uptime transaction_volume error_rate \<le> 1"
  unfolding RiskAnalytics_assess_operational_risk_def Let_def
  by (rule clamp_unit_interval)+

lemma systemic_risk_bounds:
  "0 \<le> RiskAnalytics_assess_systemic_risk network_size concentration_ratio interdependency_score"
  "RiskAnalytics_assess_systemic_risk network_size concentration_ratio interdependency_score \<le> 1"
  unfolding RiskAnalytics_assess_systemic_risk_def Let_def
  by (rule clamp_unit_interval)+

lemma composite_risk_cases:
  "case AdvancedRiskModels_assess_systemic_risk
          \<lparr>node_count = n, edge_count = m, average_degree = Fin deg,
           clustering_coefficient = Fin cc, centralization = Fin cen\<rparr>
          \<lparr>trading_volume = Fin vol, bid_ask_spread = Fin spread, market_depth = Fin depth,
           turnover_ratio = Fin turnover, liquidity_ratio = Fin liq\<rparr>
          (Fin operational_risk) of
     Inl e \<Rightarrow> e = ZeroDivisionError \<and> n = 0
   | Inr y \<Rightarrow> n \<noteq> 0 \<and> (\<exists>r. y = Fin r \<and> 0 \<le> r \<and> r \<le> 1)"
  unfolding AdvancedRiskModels_assess_systemic_risk_def ebind_def py_truediv_float_def Let_def
  using clamp_unit_interval by (simp add: minus_pyfloat_def py_clamp_Fin)

text \<open>
  Claim C1. On real-valued inputs, however far out of range, every score the four
  operations return lies in \<open>[0, 1]\<close>. The operational and the systemic score of
  RiskAnalytics are returned for all inputs. The liquidity score is returned unless a
  division raises (a market capitalisation of zero, or a spread of \<open>-1\<close>), and the
  composite systemic score unless the node count is zero; no other outcome exists.
\<close>

theorem risk_scores_in_unit_interval:
  "(case assess_liquidity_risk volume cap spr of
      Inl e \<Rightarrow> e = ZeroDivisionError \<and> (cap = 0 \<or> spr = - 1)
    | Inr r \<Rightarrow> cap \<noteq> 0 \<and> spr \<noteq> - 1 \<and> 0 \<le> r \<and> r \<le> 1)
   \<and> 0 \<le> RiskAnalytics_assess_operational_risk system_uptime transaction_volume error_rate
   \<and> RiskAnalytics_assess_operational_risk system_uptime transaction_volume error_rate \<le> 1
   \<and> 0 \<le> RiskAnalytics_assess_systemic_risk network_size concentration_ratio interdependency_score
   \<and> RiskAnalytics_assess_systemic_risk network_size concentration_ratio interdependency_score \<le> 1
   \<and> (case AdvancedRiskModels_assess_systemic_risk
          \<lparr>node_count = n, edge_count = m, average_degree = Fin deg,
           clustering_coefficient = Fin cc, centralization = Fin cen\<rparr>
          \<lparr>trading_volume = Fin vol, bid_ask_spread = Fin spread, market_depth = Fin depth,
           turnover_ratio = Fin turnover, liquidity_ratio = Fin liq\<rparr>
          (Fin operational_risk) of
        Inl e \<Rightarrow> e = ZeroDivisionError \<and> n = 0
      | Inr y \<Rightarrow> n \<noteq> 0 \<and> (\<exists>r. y = Fin r \<and> 0 \<le> r \<and> r \<le> 1))"
  by (intro conjI liquidity_risk_cases operational_risk_bounds systemic_risk_bounds
        composite_risk_cases)

text \<open>
  At concrete inputs: an error rate of 5 and a concentration ratio of 7 are clamped to
  the score 1, and the composite score of the metrics of the repository's test is
  0.36109.
\<close>

theorem risk_scores_in_unit_interval_witness:
  "assess_liquidity_risk 1000000 10000000 (1 / 1000) = Inr (63093 / 100100)
   \<and> assess_liquidity_risk 1000000 0 (1 / 1000) = Inl ZeroDivisionError
   \<and> RiskAnalytics_assess_operational_risk (999 / 1000) 500000 5 = 1
   \<and> RiskAnalytics_assess_systemic_risk 0 7 (- 3) = 1
   \<and> AdvancedRiskModels_assess_systemic_risk
          \<lparr>node_count = 4, edge_count = 5, average_degree = Fin (5 / 2),
           clustering_coefficient = Fin (1 / 2), centralization = Fin (3 / 10)\<rparr>
          \<lparr>trading_volume = Fin 1000000, bid_ask_spread = Fin (1 / 1000), market_depth = Fin 500000,
           turnover_ratio = Fin (1 / 10), liquidity_ratio = Fin (4 / 5)\<rparr>
          (Fin (1 / 5)) = Inr (Fin (36109 / 100000))"
  using risk_scores_in_unit_interval [of 1000000 10000000 "1 / 1000" "999 / 1000" 500000 5
      0 7 "- 3" 4 5 "5 / 2" "1 / 2" "3 / 10" 1000000 "1 / 1000" 500000 "1 / 10" "4 / 5" "1 / 5"]
  by (simp add: assess_liquidity_risk_def RiskAnalytics_assess_operational_risk_def
        RiskAnalytics_assess_systemic_risk_def AdvancedRiskModels_assess_systemic_risk_def
        ebind_def py_truediv_def py_truediv_float_def minus_pyfloat_def py_min_def py_max_def)

section \<open>Value at risk\<close>

lemma np_lerp_eq: "np_lerp a b t = a + t * (b - a)"
  by (simp add: np_lerp_def algebra_simps)

lemma np_percentile_linear:
  assumes "a \<noteq> []" and "0 \<le> q" and "q \<le> 100"
  shows "np_percentile a q = Inr (linear_interpolation_percentile a q)"
proof -
  define n where "n = length a"
  define h where "h = real (n - 1) * (q / 100)"
  define arr where "arr = sort a"
  have h0: "0 \<le> h"
    using assms by (simp add: h_def)
  have "q / 100 \<le> 1" using assms by simp
  then have "real (n - 1) * (q / 100) \<le> real (n - 1) * 1"
    by (intro mult_left_mono) simp_all
  then have hn: "h \<le> real (n - 1)"
    by (simp add: h_def)
  have fl0: "0 \<le> \<lfloor>h\<rfloor>" using h0 by simp
  have lo: "real (nat \<lfloor>h\<rfloor>) = real_of_int \<lfloor>h\<rfloor>"
    using fl0 by simp
  have np: "np_percentile a q
      = Inr (np_lerp (arr ! nat \<lfloor>h\<rfloor>) (arr ! min (nat \<lfloor>h\<rfloor> + 1) (n - 1)) (h - real (nat \<lfloor>h\<rfloor>)))"
    using assms by (simp add: np_percentile_def Let_def n_def h_def arr_def)
  have sp: "linear_interpolation_percentile a q
      = arr ! nat \<lfloor>h\<rfloor> + (h - real (nat \<lfloor>h\<rfloor>)) * (arr ! nat \<lceil>h\<rceil> - arr ! nat \<lfloor>h\<rfloor>)"
    by (simp add: linear_interpolation_percentile_def Let_def n_def h_def arr_def)
  show ?thesis
  proof (cases "h = real_of_int \<lfloor>h\<rfloor>")
    case True
    then have "h - real (nat \<lfloor>h\<rfloor>) = 0"
      using lo by simp
    then show ?thesis
      by (simp add: np sp np_lerp_eq)
  next
    case False
    moreover have "real_of_int \<lfloor>h\<rfloor> \<le> h"
      by (rule of_int_floor_le)
    ultimately have lt: "real_of_int \<lfloor>h\<rfloor> < h"
      by (rule order.not_eq_order_implies_strict [OF not_sym])
    have ce: "\<lceil>h\<rceil> = \<lfloor>h\<rfloor> + 1"
      using lt by (simp add: ceiling_unique)
    have "real_of_int \<lfloor>h\<rfloor> < real (n - 1)"
      using lt hn by simp
    then have "\<lfloor>h\<rfloor> < int (n - 1)"
      by linarith
    then have "nat \<lfloor>h\<rfloor> + 1 \<le> n - 1"
      using fl0 by linarith
    then have "min (nat \<lfloor>h\<rfloor> + 1) (n - 1) = nat \<lceil>h\<rceil>"
      using fl0 by (simp add: ce nat_add_distrib)
    then show ?thesis
      by (simp add: np sp np_lerp_eq)
  qed
qed

text \<open>
  Claim C3. For a return series that is not empty and a confidence level \<open>c\<close> strictly
  between 0 and 1, the value at risk is the \<open>(1 - c) * 100\<close>-th percentile of the
  returns by linear interpolation between closest ranks; for the returns
  \<open>[-0.05, -0.02, 0.0, 0.01, 0.03]\<close> and \<open>c = 0.8\<close> it is their 20th percentile,
  \<open>-0.026\<close>.
\<close>

theorem value_at_risk_is_linear_percentile:
  "(returns \<noteq> [] \<and> 0 < confidence_level \<and> confidence_level < 1 \<longrightarrow>
      calculate_var returns confidence_level
        = Inr (linear_interpolation_percentile returns ((1 - confidence_level) * 100)))
   \<and> calculate_var [- 0.05, - 0.02, 0.0, 0.01, 0.03] 0.8
        = Inr (linear_interpolation_percentile [- 0.05, - 0.02, 0.0, 0.01, 0.03] 20)
   \<and> calculate_var [- 0.05, - 0.02, 0.0, 0.01, 0.03] 0.8 = Inr (- 0.026)"
proof (intro conjI impI)
  assume "returns \<noteq> [] \<and> 0 < confidence_level \<and> confidence_level < 1"
  then show "calculate_var returns confidence_level
        = Inr (linear_interpolation_percentile returns ((1 - confidence_level) * 100))"
    unfolding calculate_var_def by (intro np_percentile_linear) simp_all
next
  have "calculate_var [- 0.05, - 0.02, 0.0, 0.01, 0.03] 0.8
      = Inr (linear_interpolation_percentile [- 0.05, - 0.02, 0.0, 0.01, 0.03] ((1 - 0.8) * 100))"
    unfolding calculate_var_def by (intro np_percentile_linear) simp_all
  then show "calculate_var [- 0.05, - 0.02, 0.0, 0.01, 0.03] 0.8
        = Inr (linear_interpolation_percentile [- 0.05, - 0.02, 0.0, 0.01, 0.03] 20)"
    by simp
next
  have fl: "\<lfloor>4 / 5 :: real\<rfloor> = 0" by simp
  show "calculate_var [- 0.05, - 0.02, 0.0, 0.01, 0.03] 0.8 = Inr (- 0.026)"
    by (simp add: calculate_var_def np_percentile_def np_lerp_def Let_def fl)
qed

theorem value_at_risk_is_linear_percentile_witness:
  "calculate_var [3, 1, 2] (1 / 2) = Inr 2 \<and> linear_interpolation_percentile [3, 1, 2] 50 = 2"
  using value_at_risk_is_linear_percentile [of "[3, 1, 2]" "1 / 2"]
  by (simp add: linear_interpolation_percentile_def)

section \<open>Network metrics\<close>

lemmas network_eval =
  calculate_network_risk_def np_sum_def np_sum_axis1_def np_mean_def np_true_divide_def
  matrix_power3_def is_square_def matmul_def np_trace_def possible_triangles_of_def
  ebind_def py_int_def Let_def upt_rec

text \<open>
  Claim C6, evaluated on the code. For the complete graph on four nodes the operation
  returns four nodes, six edges, an average degree of 3 and a centralization of 0, but a
  clustering coefficient of one third, not 1: the graph has 4 triangles and the code
  divides them by the 12 connected triples, each triangle closing three of them.
\<close>

theorem complete_graph_4_metrics:
  "calculate_network_risk [[0, 1, 1, 1], [1, 0, 1, 1], [1, 1, 0, 1], [1, 1, 1, 0]]
     = Inr \<lparr>node_count = 4, edge_count = 6, average_degree = Fin 3,
            clustering_coefficient = Fin (1 / 3), centralization = Fin 0\<rparr>"
  by (simp add: network_eval)

text \<open>
  Claim C5, as the code has it. Nothing guards the node count. An empty matrix makes
  numpy raise a ValueError; a matrix of a single node raises nothing: the metrics are
  returned, with one node and a centralization of NaN, numpy's \<open>0 / 0\<close>.
\<close>

theorem network_risk_without_node_guard:
  "calculate_network_risk [] = Inl ValueError
   \<and> (\<exists>m. calculate_network_risk [[x]] = Inr m \<and> node_count m = 1 \<and> centralization m = NaN)"
  by (simp add: network_eval)

text \<open>
  The claim as stated fails on the graph of one isolated node: the operation succeeds.
\<close>

theorem single_node_centralization_nan_counterexample:
  "calculate_network_risk [[0]]
     = Inr \<lparr>node_count = 1, edge_count = 0, average_degree = Fin 0,
            clustering_coefficient = Fin 0, centralization = NaN\<rparr>"
  by (simp add: network_eval)


subsection \<open>Integer matrices: wrapping arithmetic\<close>















lemmas int64_eval =
  calculate_network_risk_int64_def np_sum_def np_sum_axis1_def np_mean_def np_true_divide_def
  matrix_power3_def is_square_def matmul_def np_trace_def int64_to_float_def
  ebind_def py_int_def Let_def upt_rec


text \<open>
  On the graphs used above the int64 arithmetic gives the same metrics as the float
  arithmetic: the complete graph on four nodes, the empty matrix and a single node.
\<close>

lemma complete_graph_4_int64:
  "calculate_network_risk_int64 [[0, 1, 1, 1], [1, 0, 1, 1], [1, 1, 0, 1], [1, 1, 1, 0]]
     = Inr \<lparr>node_count = 4, edge_count = 6, average_degree = Fin 3,
            clustering_coefficient = Fin (1 / 3), centralization = Fin 0\<rparr>"
  by (simp add: int64_eval)

lemma small_graphs_int64:
  "calculate_network_risk_int64 [] = Inl ValueError
   \<and> (\<exists>m. calculate_network_risk_int64 [[x]] = Inr m \<and> node_count m = 1
          \<and> centralization m = NaN)"
  by (simp add: int64_eval)




section \<open>Stress test\<close>

lemma ebind_eq_Inr: "ebind m f = Inr y \<longleftrightarrow> (\<exists>x. m = Inr x \<and> f x = Inr y)"
  by (cases m) (simp_all add: ebind_def)

lemma getitem_eq_Inr: "getitem d k = Inr v \<longleftrightarrow> d k = Some v"
  by (simp add: getitem_def split: option.splits)

lemma scenario_key_eq_Inr: "scenario_key k v = Inr x \<longleftrightarrow> v = Some x"
  by (simp add: scenario_key_def split: option.splits)

lemma py_truediv_eq_Inr: "py_truediv a b = Inr r \<longleftrightarrow> b \<noteq> 0 \<and> r = a / b"
  by (auto simp: py_truediv_def)

lemma stress_test_loop_rows:
  "stress_test_loop ic scs results = Inr rows \<longleftrightarrow>
     (\<exists>new. rows = results @ new \<and> list_all2 (\<lambda>sc row. stress_test_step ic sc = Inr row) scs new)"
proof (induction scs arbitrary: results)
  case Nil
  then show ?case by auto
next
  case (Cons sc scs)
  show ?case
  proof (cases "stress_test_step ic sc")
    case (Inl e)
    then show ?thesis by (simp add: list_all2_Cons1)
  next
    case (Inr row)
    then show ?thesis
      by (auto simp: Cons.IH list_all2_Cons1)
  qed
qed

lemma stress_test_rows:
  "stress_test ic scs = Inr rows \<longleftrightarrow>
     list_all2 (\<lambda>sc row. stress_test_step ic sc = Inr row) scs rows"
  by (simp add: stress_test_def stress_test_loop_rows)

lemma stress_test_nth_row:
  assumes "stress_test ic scs = Inr rows" and "i < length scs"
  shows "stress_test_step ic (scs ! i) = Inr (rows ! i)"
proof -
  from assms(1) have "list_all2 (\<lambda>sc row. stress_test_step ic sc = Inr row) scs rows"
    by (simp add: stress_test_rows)
  from list_all2_nthD [OF this assms(2)] show ?thesis .
qed

lemma risk_row_fields:
  assumes "risk_row c sc = Inr row"
  shows "name sc = Some (row_scenario row)"
    and "\<exists>r. AdvancedRiskModels_assess_operational_risk c = Inr r \<and> row_operational_risk row = Fin r"
  using assms
  by (auto simp: risk_row_def ebind_eq_Inr scenario_key_eq_Inr)

lemma stress_test_step_shocked:
  "stress_test_step ic sc = Inr row \<longleftrightarrow>
     (\<exists>items shocked. shocks sc = Some items \<and> apply_shocks ic items = Inr shocked
        \<and> risk_row shocked sc = Inr row)"
  by (simp add: stress_test_step_def ebind_eq_Inr scenario_key_eq_Inr)

lemma stress_test_step_no_shocks:
  "shocks sc = Some [] \<Longrightarrow> stress_test_step ic sc = risk_row ic sc"
  by (simp add: stress_test_step_def ebind_def scenario_key_def)

lemmas stress_eval =
  stress_test_def stress_test_step_def risk_row_def scenario_key_def
  calculate_liquidity_risk_def AdvancedRiskModels_assess_operational_risk_def
  AdvancedRiskModels_assess_systemic_risk_def getitem_def py_truediv_def
  py_truediv_float_def minus_pyfloat_def py_min_def py_max_def
  sample_conditions_def sample_adjacency_matrix_def

text \<open>
  Claim C8. A stress test returns a table exactly when every scenario's step returns a
  row, and the table then holds these rows in the order of the scenarios: it has one
  row per scenario, the \<open>i\<close>-th row is the one computed from the \<open>i\<close>-th scenario and
  carries its name; and where that scenario's shocks are empty, the row is the one the
  risk pipeline gives on the initial conditions themselves.
\<close>

theorem stress_test_order_and_noop:
  "(stress_test ic scs = Inr rows \<longleftrightarrow>
      list_all2 (\<lambda>sc row. stress_test_step ic sc = Inr row) scs rows)
   \<and> (stress_test ic scs = Inr rows \<longrightarrow>
        length rows = length scs
      \<and> (i < length scs \<longrightarrow>
             stress_test_step ic (scs ! i) = Inr (rows ! i)
           \<and> name (scs ! i) = Some (row_scenario (rows ! i))
           \<and> (shocks (scs ! i) = Some [] \<longrightarrow> risk_row ic (scs ! i) = Inr (rows ! i))))"
proof (intro conjI impI)
  show "stress_test ic scs = Inr rows \<longleftrightarrow>
      list_all2 (\<lambda>sc row. stress_test_step ic sc = Inr row) scs rows"
    by (rule stress_test_rows)
next
  assume "stress_test ic scs = Inr rows"
  then have "list_all2 (\<lambda>sc row. stress_test_step ic sc = Inr row) scs rows"
    by (simp add: stress_test_rows)
  then show "length rows = length scs"
    by (simp add: list_all2_lengthD)
next
  assume "stress_test ic scs = Inr rows" and "i < length scs"
  then show "stress_test_step ic (scs ! i) = Inr (rows ! i)"
    by (rule stress_test_nth_row)
next
  assume "stress_test ic scs = Inr rows" and "i < length scs"
  then have "stress_test_step ic (scs ! i) = Inr (rows ! i)"
    by (rule stress_test_nth_row)
  then obtain items shocked where "risk_row shocked (scs ! i) = Inr (rows ! i)"
    by (auto simp: stress_test_step_shocked)
  then show "name (scs ! i) = Some (row_scenario (rows ! i))"
    by (rule risk_row_fields(1))
next
  assume "stress_test ic scs = Inr rows" and "i < length scs"
    and none: "shocks (scs ! i) = Some []"
  then have "stress_test_step ic (scs ! i) = Inr (rows ! i)"
    by (intro stress_test_nth_row)
  then show "risk_row ic (scs ! i) = Inr (rows ! i)"
    using stress_test_step_no_shocks [OF none, of ic] by simp
qed

text \<open>
  A run on the sample data with two scenarios, the second one without shocks: its row
  is the row of the unshocked conditions.
\<close>

theorem stress_test_order_and_noop_witness:
  "stress_test sample_conditions
     [\<lparr>name = Some ''slow'', shocks = Some [(''response_time'', 3)],
        network = Some sample_adjacency_matrix\<rparr>,
      \<lparr>name = Some ''base'', shocks = Some [],
        network = Some sample_adjacency_matrix\<rparr>]
     = Inr [\<lparr>row_scenario = ''slow'', row_network_risk = Fin (1 / 6),
             row_liquidity_risk = Fin (999 / 10000), row_operational_risk = Fin 0,
             row_systemic_risk = Fin (199551 / 500000)\<rparr>,
            \<lparr>row_scenario = ''base'', row_network_risk = Fin (1 / 6),
             row_liquidity_risk = Fin (999 / 10000), row_operational_risk = Fin (391 / 2500),
             row_systemic_risk = Fin (223011 / 500000)\<rparr>]
   \<and> risk_row sample_conditions
       \<lparr>name = Some ''base'', shocks = Some [],
        network = Some sample_adjacency_matrix\<rparr>
     = Inr \<lparr>row_scenario = ''base'', row_network_risk = Fin (1 / 6),
             row_liquidity_risk = Fin (999 / 10000), row_operational_risk = Fin (391 / 2500),
             row_systemic_risk = Fin (223011 / 500000)\<rparr>"
proof -
  have run: "stress_test sample_conditions
     [\<lparr>name = Some ''slow'', shocks = Some [(''response_time'', 3)],
        network = Some sample_adjacency_matrix\<rparr>,
      \<lparr>name = Some ''base'', shocks = Some [],
        network = Some sample_adjacency_matrix\<rparr>]
     = Inr [\<lparr>row_scenario = ''slow'', row_network_risk = Fin (1 / 6),
             row_liquidity_risk = Fin (999 / 10000), row_operational_risk = Fin 0,
             row_systemic_risk = Fin (199551 / 500000)\<rparr>,
            \<lparr>row_scenario = ''base'', row_network_risk = Fin (1 / 6),
             row_liquidity_risk = Fin (999 / 10000), row_operational_risk = Fin (391 / 2500),
             row_systemic_risk = Fin (223011 / 500000)\<rparr>]"
    by (simp add: stress_eval network_eval)
  from stress_test_order_and_noop [where i = 1, THEN conjunct2, THEN mp, OF run]
  have "risk_row sample_conditions
       \<lparr>name = Some ''base'', shocks = Some [],
        network = Some sample_adjacency_matrix\<rparr>
     = Inr \<lparr>row_scenario = ''base'', row_network_risk = Fin (1 / 6),
             row_liquidity_risk = Fin (999 / 10000), row_operational_risk = Fin (391 / 2500),
             row_systemic_risk = Fin (223011 / 500000)\<rparr>"
    by simp
  with run show ?thesis by simp
qed

lemma operational_risk_formula:
  assumes "AdvancedRiskModels_assess_operational_risk c = Inr r"
  shows "\<exists>uptime response_time target_response_time security_incidents total_incidents.
           c ''uptime'' = Some uptime \<and> c ''response_time'' = Some response_time
         \<and> c ''target_response_time'' = Some target_response_time
         \<and> c ''security_incidents'' = Some security_incidents
         \<and> c ''total_incidents'' = Some total_incidents
         \<and> target_response_time \<noteq> 0 \<and> total_incidents \<noteq> 0
         \<and> r = min (max (0.4 * (1 - uptime)
                          + 0.3 * (1 - response_time / target_response_time)
                          + 0.3 * (security_incidents / total_incidents)) 0) 1"
  using assms
  by (auto simp: AdvancedRiskModels_assess_operational_risk_def Let_def ebind_eq_Inr
      getitem_eq_Inr py_truediv_eq_Inr)

text \<open>
  Claim C2, as the code has it. The stress test calls the operational-risk assessment of
  its own class: for every scenario of a run that returns, the operational risk of the
  row is \<open>clamp(0.4 * (1 - uptime) + 0.3 * (1 - response_time / target_response_time)
  + 0.3 * (security_incidents / total_incidents), 0, 1)\<close> on the shocked conditions of
  that scenario.
\<close>

theorem stress_test_operational_risk:
  assumes "stress_test ic scs = Inr rows" and "i < length scs"
  shows "\<exists>items shocked uptime response_time target_response_time security_incidents
           total_incidents.
           shocks (scs ! i) = Some items \<and> apply_shocks ic items = Inr shocked
         \<and> shocked ''uptime'' = Some uptime \<and> shocked ''response_time'' = Some response_time
         \<and> shocked ''target_response_time'' = Some target_response_time
         \<and> shocked ''security_incidents'' = Some security_incidents
         \<and> shocked ''total_incidents'' = Some total_incidents
         \<and> target_response_time \<noteq> 0 \<and> total_incidents \<noteq> 0
         \<and> row_operational_risk (rows ! i)
             = Fin (min (max (0.4 * (1 - uptime)
                              + 0.3 * (1 - response_time / target_response_time)
                              + 0.3 * (security_incidents / total_incidents)) 0) 1)"
proof -
  from assms have "stress_test_step ic (scs ! i) = Inr (rows ! i)"
    by (rule stress_test_nth_row)
  then obtain items shocked where
    items: "shocks (scs ! i) = Some items" "apply_shocks ic items = Inr shocked"
    and row: "risk_row shocked (scs ! i) = Inr (rows ! i)"
    by (auto simp: stress_test_step_shocked)
  from risk_row_fields(2) [OF row] obtain r where
    r: "AdvancedRiskModels_assess_operational_risk shocked = Inr r"
    and op: "row_operational_risk (rows ! i) = Fin r"
    by blast
  from operational_risk_formula [OF r] items op show ?thesis
    by blast
qed


theorem stress_test_operational_risk_witness:
  "stress_test sample_conditions
     [\<lparr>name = Some ''slow'', shocks = Some [(''response_time'', 3)],
        network = Some sample_adjacency_matrix\<rparr>]
     = Inr [\<lparr>row_scenario = ''slow'', row_network_risk = Fin (1 / 6),
             row_liquidity_risk = Fin (999 / 10000), row_operational_risk = Fin 0,
             row_systemic_risk = Fin (199551 / 500000)\<rparr>]
   \<and> min (max (0.4 * (1 - 0.999) + 0.3 * (1 - 0.4 / 0.2) + 0.3 * (2 / 100)) 0) 1 = (0 :: real)"
proof -
  have run: "stress_test sample_conditions
     [\<lparr>name = Some ''slow'', shocks = Some [(''response_time'', 3)],
        network = Some sample_adjacency_matrix\<rparr>]
     = Inr [\<lparr>row_scenario = ''slow'', row_network_risk = Fin (1 / 6),
             row_liquidity_risk = Fin (999 / 10000), row_operational_risk = Fin 0,
             row_systemic_risk = Fin (199551 / 500000)\<rparr>]"
    by (simp add: stress_eval network_eval)
  from stress_test_operational_risk [OF run, of 0] run show ?thesis
    by simp
qed

text \<open>
  The formula of section 4.1 cannot give that row: with the sample uptime it is at
  least 0.0004 for every transaction volume and error rate that are not negative.
\<close>

lemma operational_risk_formula_4_1_lower_bound:
  assumes "0 \<le> transaction_volume" and "0 \<le> error_rate"
  shows "1 / 2500 \<le> operational_risk_formula_4_1 (999 / 1000) transaction_volume error_rate"
proof -
  have "0 \<le> min (transaction_volume / 1000000) 1"
    using assms(1) by simp
  then show ?thesis
    using assms(2) unfolding operational_risk_formula_4_1_def by simp
qed

text \<open>
  The claim as stated fails on the sample data when the response time is shocked to
  four times its value: the shocked conditions keep the uptime 0.999, the transaction
  volume 500000 and the error rate 0.0001, for which the formula of section 4.1 gives
  0.15043, while the row's operational risk is 0.
\<close>

theorem stress_test_operational_risk_counterexample:
  "stress_test sample_conditions
     [\<lparr>name = Some ''slow'', shocks = Some [(''response_time'', 3)],
        network = Some sample_adjacency_matrix\<rparr>]
     = Inr [\<lparr>row_scenario = ''slow'', row_network_risk = Fin (1 / 6),
             row_liquidity_risk = Fin (999 / 10000), row_operational_risk = Fin 0,
             row_systemic_risk = Fin (199551 / 500000)\<rparr>]
   \<and> apply_shocks sample_conditions [(''response_time'', 3)]
     = Inr (sample_conditions(''response_time'' \<mapsto> 2 / 5))
   \<and> (sample_conditions(''response_time'' \<mapsto> 2 / 5)) ''uptime'' = Some (999 / 1000)
   \<and> (sample_conditions(''response_time'' \<mapsto> 2 / 5)) ''transaction_volume'' = Some 500000
   \<and> (sample_conditions(''response_time'' \<mapsto> 2 / 5)) ''error_rate'' = Some (1 / 10000)
   \<and> operational_risk_formula_4_1 (999 / 1000) 500000 (1 / 10000) = 15043 / 100000"
  by (simp add: stress_eval network_eval operational_risk_formula_4_1_def)

end
